theory Spec2Isabelle
  imports Complex_Main "HOL-Library.Monad_Syntax"
begin

section \<open>JSON values and the jq operations the monitor script uses\<close>

text \<open>
  The monitor script \<^verbatim>\<open>src/scripts/linux.sh\<close> keeps all of its data as JSON and
  computes on it with jq filters. A JSON value is modelled as jq sees it: an object is
  a list of key/value pairs in insertion order. jq's numbers are IEEE doubles; here a
  number is an exact rational, so the arithmetic below agrees with jq's wherever the
  operands and the result are exactly representable (small integers, halves, quarters).
\<close>

datatype json =
    JNull
  | JBool bool
  | JNumber rat
  | JString string
  | JArray "json list"
  | JObject "(string \<times> json) list"

abbreviation LF :: char where
  "LF \<equiv> CHR 0x0A"

subsection \<open>Strings: split, ltrimstr, rtrimstr\<close>

text \<open>
  \<^verbatim>\<open>split(",")\<close> on a string: the pieces between the separators, in order; the empty
  string has no piece at all. The script only ever splits on a one-character
  separator, so the separator is a character here.
\<close>

fun split_acc :: "char \<Rightarrow> string \<Rightarrow> string \<Rightarrow> string list" where
  "split_acc sep tok [] = [rev tok]"
| "split_acc sep tok (c # cs) =
     (if c = sep then rev tok # split_acc sep [] cs else split_acc sep (c # tok) cs)"

definition jq_split :: "char \<Rightarrow> string \<Rightarrow> string list" where
  "jq_split sep s = (if s = [] then [] else split_acc sep [] s)"

text \<open>
  \<^verbatim>\<open>ltrimstr(p)\<close> removes the prefix \<open>p\<close> once when the string starts with it,
  \<^verbatim>\<open>rtrimstr(p)\<close> the suffix \<open>p\<close> once when the string ends with it; otherwise the
  string is returned as it is.
\<close>

definition ltrimstr :: "string \<Rightarrow> string \<Rightarrow> string" where
  "ltrimstr p s = (if take (length p) s = p then drop (length p) s else s)"

definition rtrimstr :: "string \<Rightarrow> string \<Rightarrow> string" where
  "rtrimstr p s =
     (if length p \<le> length s \<and> drop (length s - length p) s = p
      then take (length s - length p) s else s)"

subsection \<open>The shell's echo\<close>

text \<open>
  \<^verbatim>\<open>echo "$x"\<close> with bash's builtin: the argument followed by a newline, unless the
  argument is itself an option word (a dash followed by one or more of the letters
  n, e, E), in which case nothing of it is printed and \<^verbatim>\<open>-n\<close> also drops the newline.
\<close>

definition is_echo_option :: "string \<Rightarrow> bool" where
  "is_echo_option s =
     (case s of
        c # rest \<Rightarrow> c = CHR ''-'' \<and> rest \<noteq> [] \<and> list_all (\<lambda>x. x \<in> set ''neE'') rest
      | [] \<Rightarrow> False)"

definition echo :: "string \<Rightarrow> string" where
  "echo s =
     (if is_echo_option s then (if CHR ''n'' \<in> set s then [] else [LF])
      else s @ [LF])"

section \<open>GitHub context: parse_repos_to_json\<close>

text \<open>
  \<^verbatim>\<open>
  parse_repos_to_json() {
      local repos="$1"
      if [ -z "$repos" ]; then echo '[]'; return; fi
      echo "$repos" | jq -Rs '
          split(",") |
          map(ltrimstr(" ") | rtrimstr(" ")) |
          map(select(length > 0)) |
          map({ name: ., url: ("https://github.com/" + .) })'
  }
  \<close>
  \<^verbatim>\<open>jq -Rs\<close> reads the whole of its input as one string, so the filter runs on what
  \<^verbatim>\<open>echo\<close> wrote, its final newline included.
\<close>

definition repo_object :: "string \<Rightarrow> json" where
  "repo_object t = JObject [(''name'', JString t), (''url'', JString (''https://github.com/'' @ t))]"

definition repos_filter :: "string \<Rightarrow> json" where
  "repos_filter input =
     JArray (map repo_object
       (filter (\<lambda>t. length t > 0)
         (map (\<lambda>t. rtrimstr '' '' (ltrimstr '' '' t)) (jq_split CHR '','' input))))"

definition parse_repos_to_json :: "string \<Rightarrow> json" where
  "parse_repos_to_json repos =
     (if repos = [] then JArray [] else repos_filter (echo repos))"

subsection \<open>Objects, indexing and addition\<close>

text \<open>
  Setting a key of an object replaces the value where the key is present and appends
  the pair otherwise. \<^verbatim>\<open>a + b\<close> on two objects sets every pair of \<open>b\<close> in \<open>a\<close>, so
  \<open>b\<close> wins on a shared key.
\<close>

fun obj_set :: "string \<Rightarrow> json \<Rightarrow> (string \<times> json) list \<Rightarrow> (string \<times> json) list" where
  "obj_set k v [] = [(k, v)]"
| "obj_set k v ((k', v') # kvs) =
     (if k' = k then (k, v) # kvs else (k', v') # obj_set k v kvs)"

definition obj_merge :: "(string \<times> json) list \<Rightarrow> (string \<times> json) list \<Rightarrow> (string \<times> json) list" where
  "obj_merge a b = foldl (\<lambda>acc kv. obj_set (fst kv) (snd kv) acc) a b"

text \<open>
  jq's \<^verbatim>\<open>+\<close>: null is neutral, numbers add, strings and arrays concatenate, objects
  merge; every other pair of operands is an error (\<open>None\<close>).
\<close>

fun jq_plus :: "json \<Rightarrow> json \<Rightarrow> json option" where
  "jq_plus JNull b = Some b"
| "jq_plus a JNull = Some a"
| "jq_plus (JNumber x) (JNumber y) = Some (JNumber (x + y))"
| "jq_plus (JString x) (JString y) = Some (JString (x @ y))"
| "jq_plus (JArray x) (JArray y) = Some (JArray (x @ y))"
| "jq_plus (JObject x) (JObject y) = Some (JObject (obj_merge x y))"
| "jq_plus _ _ = None"


fun obj_keys :: "json \<Rightarrow> string list" where
  "obj_keys (JObject kvs) = map fst kvs"
| "obj_keys _ = []"

section \<open>Command line arguments\<close>

text \<open>
  The script's global variables with their defaults, and the \<^verbatim>\<open>while [[ $# -gt 0 ]]\<close>
  loop over the arguments. Every value option takes \<^verbatim>\<open>"$2"\<close> as it stands, with no
  check; under \<^verbatim>\<open>set -u\<close> a value option that comes last finds \<^verbatim>\<open>$2\<close> unbound and the
  shell stops. \<^verbatim>\<open>--help\<close> exits with status 0, any other word with status 1.
\<close>

record globals =
  OUTPUT_FILE :: string
  MODE :: string
  USER_LOGIN :: string
  GITHUB_REPOS :: string
  UPDATE_INTERVAL :: string
  MAX_ENTRIES :: string

definition defaults :: globals where
  "defaults = \<lparr>OUTPUT_FILE = ''/tmp/system_monitor.json'', MODE = ''minimal'',
     USER_LOGIN = [], GITHUB_REPOS = [], UPDATE_INTERVAL = ''1'', MAX_ENTRIES = ''1440''\<rparr>"

datatype stop = Exit nat | UnboundVariable

definition set_option :: "string \<Rightarrow> string \<Rightarrow> globals \<Rightarrow> globals option" where
  "set_option opt v g =
     (if opt = ''-o'' \<or> opt = ''--output'' then Some (g\<lparr>OUTPUT_FILE := v\<rparr>)
      else if opt = ''-m'' \<or> opt = ''--mode'' then Some (g\<lparr>MODE := v\<rparr>)
      else if opt = ''-u'' \<or> opt = ''--user'' then Some (g\<lparr>USER_LOGIN := v\<rparr>)
      else if opt = ''-r'' \<or> opt = ''--repos'' then Some (g\<lparr>GITHUB_REPOS := v\<rparr>)
      else if opt = ''-i'' \<or> opt = ''--interval'' then Some (g\<lparr>UPDATE_INTERVAL := v\<rparr>)
      else if opt = ''--max-entries'' then Some (g\<lparr>MAX_ENTRIES := v\<rparr>)
      else None)"

definition takes_value :: "string \<Rightarrow> bool" where
  "takes_value opt = (opt \<in> set [''-o'', ''--output'', ''-m'', ''--mode'', ''-u'', ''--user'',
     ''-r'', ''--repos'', ''-i'', ''--interval'', ''--max-entries''])"

fun parse_args :: "string list \<Rightarrow> globals \<Rightarrow> stop + globals" where
  "parse_args [] g = Inr g"
| "parse_args [opt] g =
     (if takes_value opt then Inl UnboundVariable
      else if opt = ''-h'' \<or> opt = ''--help'' then Inl (Exit 0)
      else Inl (Exit 1))"
| "parse_args (opt # v # rest) g =
     (case set_option opt v g of
        Some g' \<Rightarrow> parse_args rest g'
      | None \<Rightarrow> if opt = ''-h'' \<or> opt = ''--help'' then Inl (Exit 0) else Inl (Exit 1))"

section \<open>Data collection: collect_entry\<close>

text \<open>
  What the host answers when the script asks: \<^verbatim>\<open>date -u '+%Y-%m-%d %H:%M:%S'\<close>,
  \<^verbatim>\<open>whoami\<close>, and the JSON fragment each sampler function prints. The samplers read
  live operating-system state through awk, free, df, ip and ps; their output is taken
  as given, each a JSON value.
\<close>

record host =
  date_utc :: string
  whoami :: string
  get_cpu_info :: json
  get_memory_info :: json
  get_disk_info :: json
  get_system_info :: json
  get_network_info :: json
  get_top_processes :: json

text \<open>
  The entry starts as \<^verbatim>\<open>{}\<close>; the first jq call puts timestamp and github_context in
  front of it, and the \<^verbatim>\<open>case "$MODE"\<close> adds the system object in the branches
  minimal, extended and full. The case has no default branch.
\<close>

definition minimal_system :: "host \<Rightarrow> json" where
  "minimal_system h = JObject [(''system'', JObject
     [(''cpu'', get_cpu_info h), (''memory'', get_memory_info h), (''disk'', get_disk_info h)])]"

definition extended_system :: "host \<Rightarrow> json" where
  "extended_system h = JObject [(''system'', JObject
     [(''info'', get_system_info h), (''cpu'', get_cpu_info h), (''memory'', get_memory_info h),
      (''disk'', get_disk_info h), (''network'', get_network_info h),
      (''top_processes'', get_top_processes h)])]"

definition full_system :: "host \<Rightarrow> json" where
  "full_system h = JObject [(''system'', JObject
     [(''info'', get_system_info h), (''cpu'', get_cpu_info h), (''memory'', get_memory_info h),
      (''disk'', get_disk_info h), (''network'', get_network_info h),
      (''top_processes'', get_top_processes h)])]"

definition collect_entry :: "globals \<Rightarrow> host \<Rightarrow> json option" where
  "collect_entry g h =
     (let timestamp = date_utc h;
          current_user = (if USER_LOGIN g = [] then whoami h else USER_LOGIN g);
          repos_json = parse_repos_to_json (GITHUB_REPOS g)
      in do {
        entry \<leftarrow> jq_plus
          (JObject [(''timestamp'', JString timestamp),
                    (''github_context'', JObject [(''user'', JString current_user),
                                                  (''repositories'', repos_json)])])
          (JObject []);
        if MODE g = ''minimal'' then jq_plus entry (minimal_system h)
        else if MODE g = ''extended'' then jq_plus entry (extended_system h)
        else if MODE g = ''full'' then jq_plus entry (full_system h)
        else Some entry
      })"

section \<open>Files\<close>

text \<open>
  The script keeps its state in three files beside each other: the output file, its
  \<^verbatim>\<open>.tmp\<close> sibling and its \<^verbatim>\<open>.lock\<close> sibling. A file is known either by its bytes,
  together with what jq reads from those bytes (nothing at all, a syntax error, or a
  JSON document), or as the output jq printed for a value, which jq reads back as that
  value. Permissions (\<^verbatim>\<open>chmod 644\<close>) and the script's log lines are left out.
\<close>

datatype jq_reading = NoInput | SyntaxError | Document json

datatype content = Text string jq_reading | JqOutput json

fun reading :: "content \<Rightarrow> jq_reading" where
  "reading (Text b r) = r"
| "reading (JqOutput j) = Document j"

type_synonym fs = "string \<Rightarrow> content option"

text \<open>Decimal digits of a number, as \<^verbatim>\<open>date +%s\<close> and \<^verbatim>\<open>$$\<close> expand.\<close>

fun show_nat :: "nat \<Rightarrow> string" where
  "show_nat n =
     (if n < 10 then [''0123456789'' ! n]
      else show_nat (n div 10) @ [''0123456789'' ! (n mod 10)])"

declare show_nat.simps [simp del]

text \<open>\<^verbatim>\<open>echo "[]" > file\<close>: the two characters and echo's newline.\<close>

definition empty_array_file :: content where
  "empty_array_file = Text (echo ''[]'') (Document (JArray []))"

text \<open>
  What the host answers beyond the samplers: \<^verbatim>\<open>date +%s\<close> and the shell's own
  process id \<^verbatim>\<open>$$\<close>.
\<close>

record clock =
  date_epoch :: nat
  pid :: nat

section \<open>File lock: acquire_lock, release_lock\<close>












section \<open>The bounded array store\<close>

subsection \<open>initialize_file\<close>

text \<open>
  \<^verbatim>\<open>
  initialize_file() {
      if [ ! -f "$OUTPUT_FILE" ]; then
          echo "[]" > "$OUTPUT_FILE"
          chmod 644 "$OUTPUT_FILE"
      else
          if ! jq -e '. | type == "array"' "$OUTPUT_FILE" > /dev/null 2>&1; then
              mv "$OUTPUT_FILE" "${OUTPUT_FILE}.backup.$(date +%s)"
              echo "[]" > "$OUTPUT_FILE"
          fi
      fi
  }
  \<close>
  \<^verbatim>\<open>jq -e\<close> exits with 0 exactly when it read a document and the filter's answer for it
  is true, that is, when the document is an array.
\<close>

fun jq_type_is_array :: "jq_reading \<Rightarrow> bool" where
  "jq_type_is_array (Document (JArray xs)) = True"
| "jq_type_is_array _ = False"

definition backup_path :: "string \<Rightarrow> clock \<Rightarrow> string" where
  "backup_path out c = out @ ''.backup.'' @ show_nat (date_epoch c)"

definition initialize_file :: "string \<Rightarrow> clock \<Rightarrow> fs \<Rightarrow> fs" where
  "initialize_file out c fs =
     (case fs out of
        None \<Rightarrow> fs(out \<mapsto> empty_array_file)
      | Some f \<Rightarrow>
          if \<not> jq_type_is_array (reading f)
          then ((fs(out := None))(backup_path out c \<mapsto> f))(out \<mapsto> empty_array_file)
          else fs)"

subsection \<open>append_entry\<close>









subsection \<open>print_stats\<close>
















section \<open>The action's input parser: parseInputs\<close>








section \<open>Sample inputs\<close>

text \<open>Concrete hosts, clocks and entries on which the theorems below are run.\<close>

definition sample_host :: host where
  "sample_host = \<lparr>date_utc = ''2025-09-17 10:00:00'', whoami = ''runner'',
     get_cpu_info = JObject [(''cores'', JNumber 2)], get_memory_info = JObject [],
     get_disk_info = JArray [], get_system_info = JObject [(''hostname'', JString ''box'')],
     get_network_info = JArray [], get_top_processes = JArray []\<rparr>"

definition sample_clock :: clock where
  "sample_clock = \<lparr>date_epoch = 1758102000, pid = 4242\<rparr>"



section \<open>Theorems\<close>

subsection \<open>Repository parsing\<close>

text \<open>
  C4. The claim: the repository parser splits on commas, trims each token of leading
  and trailing whitespace, drops empty tokens, keeps the order, and maps each token
  \<open>t\<close> to name \<open>t\<close> and url \<open>https://github.com/t\<close>; the input \<open>" a/b , ,c/d,"\<close> yields
  exactly the two repositories a/b and c/d.

  The code does not do this. The newline that echo appends is part of the string jq
  splits, and \<^verbatim>\<open>ltrimstr(" ")\<close>, \<^verbatim>\<open>rtrimstr(" ")\<close> remove one space, not whitespace.
  On the claim's own input the last token is the lone newline: it is not empty, so a
  third repository named by a newline is produced; on a single repository the name
  ends in the newline. The theorem evaluates the code on both inputs.
\<close>

theorem parse_repos_to_json_example:
  "parse_repos_to_json '' a/b , ,c/d,'' =
     JArray [repo_object ''a/b'', repo_object ''c/d'', repo_object [LF]]
   \<and> parse_repos_to_json ''wechuli/kubecosmos'' =
     JArray [repo_object (''wechuli/kubecosmos'' @ [LF])]"
  by (simp add: parse_repos_to_json_def repos_filter_def echo_def is_echo_option_def
      jq_split_def ltrimstr_def rtrimstr_def)

subsection \<open>Entry assembly\<close>



text \<open>
  C10. The argument loop stores whatever follows \<^verbatim>\<open>--mode\<close>; with a mode that is none
  of minimal, extended and full, collect_entry succeeds and the entry has the keys
  timestamp and github_context and no system key.
\<close>

theorem collect_entry_unknown_mode:
  assumes "m \<notin> {''minimal'', ''extended'', ''full''}"
  shows "parse_args (''--mode'' # m # rest) g = parse_args rest (g\<lparr>MODE := m\<rparr>)
         \<and> parse_args [''--mode'', m] defaults = Inr (defaults\<lparr>MODE := m\<rparr>)
         \<and> (\<exists>e. collect_entry (g\<lparr>MODE := m\<rparr>) h = Some e
               \<and> obj_keys e = [''timestamp'', ''github_context'']
               \<and> ''system'' \<notin> set (obj_keys e))"
  using assms
  by (auto simp: collect_entry_def set_option_def obj_merge_def Let_def)

theorem collect_entry_unknown_mode_witness:
  "parse_args [''--mode'', ''turbo''] defaults = Inr (defaults\<lparr>MODE := ''turbo''\<rparr>)
   \<and> (\<exists>e. collect_entry (defaults\<lparr>MODE := ''turbo''\<rparr>) sample_host = Some e
         \<and> obj_keys e = [''timestamp'', ''github_context'']
         \<and> ''system'' \<notin> set (obj_keys e))"
  using collect_entry_unknown_mode [of "''turbo''" "[]" defaults sample_host]
  by simp

subsection \<open>The input parser\<close>





subsection \<open>The array store: initialize_file\<close>

lemma backup_path_differs: "backup_path out c \<noteq> out" "out \<noteq> backup_path out c"
  by (auto simp: backup_path_def)

text \<open>
  C2, as the code has it. On a file that jq reads as an array, initialize_file changes
  nothing, run once or twice. On any other existing file (not JSON, empty, or a JSON
  value that is not an array) the file is moved to the backup path
  \<^verbatim>\<open><path>.backup.<unixtime>\<close>, which then holds the original content, and the output
  file is written anew by \<^verbatim>\<open>echo "[]"\<close>: the three bytes \<open>[\<close>, \<open>]\<close> and newline, which jq
  reads as the empty array. No other file changes, and a second run changes nothing
  more.
\<close>

theorem initialize_file_store:
  "(fs out = Some f \<and> jq_type_is_array (reading f) \<longrightarrow>
      initialize_file out c fs = fs \<and> initialize_file out c' (initialize_file out c fs) = fs)
   \<and> (fs out = Some f \<and> \<not> jq_type_is_array (reading f) \<longrightarrow>
      initialize_file out c fs (backup_path out c) = Some f
      \<and> initialize_file out c fs out = Some (Text [CHR ''['', CHR '']'', LF] (Document (JArray [])))
      \<and> (\<forall>p. p \<noteq> out \<and> p \<noteq> backup_path out c \<longrightarrow> initialize_file out c fs p = fs p)
      \<and> initialize_file out c' (initialize_file out c fs) = initialize_file out c fs)"
  by (auto simp: initialize_file_def empty_array_file_def echo_def is_echo_option_def
      backup_path_differs)

theorem initialize_file_store_witness:
  "initialize_file ''m.json'' sample_clock
       [''m.json'' \<mapsto> Text ''[1]'' (Document (JArray [JNumber 1]))]
     = [''m.json'' \<mapsto> Text ''[1]'' (Document (JArray [JNumber 1]))]
   \<and> initialize_file ''m.json'' sample_clock [''m.json'' \<mapsto> Text ''{oops'' SyntaxError]
       ''m.json.backup.1758102000'' = Some (Text ''{oops'' SyntaxError)
   \<and> initialize_file ''m.json'' sample_clock [''m.json'' \<mapsto> Text ''{oops'' SyntaxError]
       ''m.json'' = Some (Text [CHR ''['', CHR '']'', LF] (Document (JArray [])))"
proof -
  have bp: "backup_path ''m.json'' sample_clock = ''m.json.backup.1758102000''"
    by (simp add: backup_path_def sample_clock_def show_nat.simps)
  show ?thesis
    using initialize_file_store [of "[''m.json'' \<mapsto> Text ''[1]'' (Document (JArray [JNumber 1]))]"
        "''m.json''" "Text ''[1]'' (Document (JArray [JNumber 1]))" sample_clock sample_clock]
      initialize_file_store [of "[''m.json'' \<mapsto> Text ''{oops'' SyntaxError]"
        "''m.json''" "Text ''{oops'' SyntaxError" sample_clock sample_clock]
    by (simp add: bp)
qed

text \<open>
  The claim's last words fail: after a corrupt file the output file does not hold the
  two bytes \<open>[]\<close> but three, since echo ends its line.
\<close>

theorem initialize_file_three_bytes:
  "initialize_file ''m.json'' sample_clock [''m.json'' \<mapsto> Text ''{oops'' SyntaxError] ''m.json''
     = Some (Text (''[]'' @ [LF]) (Document (JArray [])))
   \<and> length (''[]'' @ [LF]) = 3
   \<and> initialize_file ''m.json'' sample_clock [''m.json'' \<mapsto> Text ''{oops'' SyntaxError] ''m.json''
     \<noteq> Some (Text ''[]'' (Document (JArray [])))"
  by (simp add: initialize_file_def empty_array_file_def echo_def is_echo_option_def)

subsection \<open>The file lock\<close>






subsection \<open>The array store: append_entry\<close>














subsection \<open>The array store: print_stats\<close>



















end
